theory Spec2Isabelle
  imports Complex_Main "HOL-Library.AList" "HOL-Library.Sublist"
begin

section \<open>Python values\<close>

text \<open>
  The exception classes that reach a handler of \<^verbatim>\<open>settings.py\<close>. A handler
  \<^verbatim>\<open>except ValueError\<close> catches the class and its subclasses; of the classes here
  \<open>JSONDecodeError\<close> is the one subclass of \<open>ValueError\<close>.
\<close>

datatype exn =
  ValueError | JSONDecodeError | TclError | OverflowError | OSError | AttributeError

fun is_ValueError :: "exn \<Rightarrow> bool" where
  "is_ValueError ValueError = True"
| "is_ValueError JSONDecodeError = True"
| "is_ValueError TclError = False"
| "is_ValueError OverflowError = False"
| "is_ValueError OSError = False"
| "is_ValueError AttributeError = False"

text \<open>
  What \<^verbatim>\<open>json.load\<close> returns and \<^verbatim>\<open>json.dump\<close> accepts. A Python float is
  stored and compared only, never computed with; it is represented by the number it denotes.
  A \<^verbatim>\<open>dict\<close> keeps its keys in insertion order, so it is an association list.
\<close>

datatype json =
    JNull
  | JBool bool
  | JInt int
  | JFloat real
  | JStr string
  | JList "json list"
  | JObj "(string \<times> json) list"

type_synonym dict = "(string \<times> json) list"

text \<open>\<^verbatim>\<open>d.update(new)\<close>: the pairs of \<open>new\<close> are stored in order; a key that is already
  there keeps its place, a new key goes to the end.\<close>

definition dict_update :: "dict \<Rightarrow> dict \<Rightarrow> dict" where
  "dict_update d new = fold (\<lambda>(k, v). AList.update k v) new d"

definition DEFAULT_CONFIG :: dict where
  "DEFAULT_CONFIG =
     [(''speed'', JFloat 1),
      (''population'', JInt 17),
      (''background_effect'', JStr ''pure-black''),
      (''scale'', JFloat 1),
      (''randomness'', JFloat (1 / 2)),
      (''cycle_settings'', JBool False),
      (''bg_cycle_seconds'', JInt 10),
      (''lens_effect'', JStr ''none''),
      (''enabled_characters'', JList [])]"

text \<open>The nine keys that \<^verbatim>\<open>save_config\<close> writes from the controls.\<close>

definition managed_keys :: "string list" where
  "managed_keys =
     [''speed'', ''population'', ''scale'', ''randomness'', ''background_effect'',
      ''cycle_settings'', ''bg_cycle_seconds'', ''lens_effect'', ''enabled_characters'']"

text \<open>
  \<^verbatim>\<open>json.dump\<close> writes an integer through its decimal string, and Python refuses
  to convert an integer of more than 4300 decimal digits: the conversion raises
  \<open>ValueError\<close>. Every other value of the type can be written.
\<close>

definition max_str_digits :: nat where
  "max_str_digits = 4300"

fun ndigits :: "nat \<Rightarrow> nat" where
  "ndigits n = (if n < 10 then 1 else Suc (ndigits (n div 10)))"

declare ndigits.simps [simp del]

primrec json_dumpable :: "json \<Rightarrow> bool" where
  "json_dumpable JNull = True"
| "json_dumpable (JBool b) = True"
| "json_dumpable (JInt i) = (ndigits (nat \<bar>i\<bar>) \<le> max_str_digits)"
| "json_dumpable (JFloat x) = True"
| "json_dumpable (JStr s) = True"
| "json_dumpable (JList xs) = list_all id (map json_dumpable xs)"
| "json_dumpable (JObj kvs) = list_all snd (map (map_prod id json_dumpable) kvs)"

section \<open>The world outside the editor\<close>

text \<open>
  The file \<^verbatim>\<open>config.json\<close> is absent, or it exists and reading it raises
  (\<^verbatim>\<open>open\<close> or \<^verbatim>\<open>json.load\<close>), or it holds a JSON document. \<^verbatim>\<open>json.dump\<close> followed
  by \<^verbatim>\<open>json.load\<close> is taken to give back the value written: the file holds the value.
\<close>

datatype disk_file = Absent | Malformed exn | Document json

fun exists_file :: "disk_file \<Rightarrow> bool" where
  "exists_file Absent = False"
| "exists_file (Malformed e) = True"
| "exists_file (Document j) = True"

text \<open>\<^verbatim>\<open>with open(CONFIG_FILE, 'r') as f: return json.load(f)\<close>\<close>

fun json_load :: "disk_file \<Rightarrow> exn + json" where
  "json_load Absent = Inl OSError"
| "json_load (Malformed e) = Inl e"
| "json_load (Document j) = Inr j"

datatype dialog =
    SelectAtLeastOne
  | InvalidNumericValues
  | CouldNotSaveConfig exn
  | SettingsSaved
  | FailedToOpenPreview exn

text \<open>
  \<open>write_raises\<close> is what \<^verbatim>\<open>open(CONFIG_FILE, 'w')\<close> raises, if anything;
  \<open>dump_raises\<close> is what writing to the opened file raises, if anything (a full disk);
  \<open>popen_raises\<close> is what \<^verbatim>\<open>subprocess.Popen\<close> raises for a command, if anything.
  \<open>dialogs\<close> logs the message boxes shown, \<open>popen_calls\<close> the commands handed to
  \<^verbatim>\<open>Popen\<close> and \<open>processes\<close> the commands that were started.
\<close>

record world =
  config_file :: disk_file
  write_raises :: "exn option"
  dump_raises :: "exn option"
  dialogs :: "dialog list"
  popen_raises :: "string list \<Rightarrow> exn option"
  popen_calls :: "string list list"
  processes :: "string list list"

section \<open>The editor session\<close>

text \<open>
  A Tk variable either holds a value of its type or its \<^verbatim>\<open>get()\<close> raises. Tk's
  \<^verbatim>\<open>IntVar.get\<close> and \<^verbatim>\<open>DoubleVar.get\<close> raise \<open>TclError\<close> for a content that
  is no number (the text of the cycle-time entry, for one) and \<open>OverflowError\<close> for an
  infinite one; \<^verbatim>\<open>BooleanVar.get\<close> raises \<open>ValueError\<close> for a content that is no
  boolean. The class is carried by \<open>Invalid\<close>; the definitions below work for any class.
\<close>

datatype 'a tkvar = Holds 'a | Invalid exn

fun tk_get :: "'a tkvar \<Rightarrow> exn + 'a" where
  "tk_get (Holds v) = Inr v"
| "tk_get (Invalid e) = Inl e"

fun unreadable :: "'a tkvar \<Rightarrow> bool" where
  "unreadable (Holds v) = False"
| "unreadable (Invalid e) = True"

record controls =
  speed_var :: "real tkvar"
  population_var :: "int tkvar"
  scale_var :: "real tkvar"
  rand_var :: "real tkvar"
  bg_var :: "string tkvar"
  cycle_settings_var :: "bool tkvar"
  bg_cycle_sec_var :: "int tkvar"
  lens_var :: "string tkvar"

record session =
  config_data :: dict
  available_assets :: "string list"
  char_vars :: "(string \<times> bool) list"
  controls :: controls

subsection \<open>\<^verbatim>\<open>get_available_assets\<close>\<close>

text \<open>
  The assets directory is missing (\<open>None\<close>) or lists its entries in the order of the file
  system. \<^verbatim>\<open>glob\<close> with the pattern \<^verbatim>\<open>*.svg\<close> keeps the names that end in
  \<^verbatim>\<open>.svg\<close> and do not start with a dot.
\<close>

definition matches_svg :: "string \<Rightarrow> bool" where
  "matches_svg name \<longleftrightarrow>
     4 \<le> length name \<and> drop (length name - 4) name = ''.svg'' \<and> hd name \<noteq> CHR ''.''"

fun get_available_assets :: "string list option \<Rightarrow> string list" where
  "get_available_assets None = []"
| "get_available_assets (Some names) = filter matches_svg names"

subsection \<open>\<^verbatim>\<open>load_config\<close>\<close>

text \<open>The second component is the exception that was printed, if one was caught.\<close>

definition load_config :: "disk_file \<Rightarrow> json \<times> exn option" where
  "load_config f =
     (if \<not> exists_file f then (JObj DEFAULT_CONFIG, None)
      else case json_load f of
             Inl e \<Rightarrow> (JObj DEFAULT_CONFIG, Some e)
           | Inr j \<Rightarrow> (j, None))"

subsection \<open>\<^verbatim>\<open>__init__\<close> and \<^verbatim>\<open>build_chars_tab\<close>\<close>

text \<open>
  \<^verbatim>\<open>saved_chars = self.config_data.get('enabled_characters', [])\<close>, replaced by
  \<^verbatim>\<open>[]\<close> when it is not a list.
\<close>

definition saved_chars :: "dict \<Rightarrow> json list" where
  "saved_chars cfg =
     (case map_of cfg ''enabled_characters'' of
        Some (JList xs) \<Rightarrow> xs
      | _ \<Rightarrow> [])"

text \<open>Lines 38 to 44 of \<^verbatim>\<open>__init__\<close>.\<close>

definition init_enabled_characters :: "dict \<Rightarrow> string list \<Rightarrow> dict" where
  "init_enabled_characters cfg assets =
     (if length (saved_chars cfg) = 0
      then AList.update ''enabled_characters'' (JList (map JStr assets)) cfg
      else cfg)"

text \<open>One check box per asset, in the order of the catalog, ticked when the asset is among
  the saved characters.\<close>

definition build_chars_tab :: "session \<Rightarrow> session" where
  "build_chars_tab s =
     (if available_assets s = [] then s
      else
        let saved = saved_chars (config_data s) in
        s\<lparr>char_vars :=
            fold (\<lambda>asset cv. AList.update asset (JStr asset \<in> set saved) cv)
              (available_assets s) (char_vars s)\<rparr>)"

text \<open>
  The constructor. A loaded document that is no object has no \<^verbatim>\<open>get\<close>, and the
  constructor raises. \<^verbatim>\<open>build_config_tab\<close> is not modelled: the values it gives the
  eight controls are the parameter \<open>ctl\<close>, and its conversions
  \<^verbatim>\<open>float(str(...))\<close> and \<^verbatim>\<open>int(str(...))\<close>, which raise \<open>ValueError\<close> on a
  field that is no number, are not in \<open>init\<close>. So \<open>init f dir ctl = Inr s\<close> says what
  the session is when the constructor returns with the controls \<open>ctl\<close>; it does not say
  that the constructor returns. Every property below takes it as a hypothesis.
\<close>

definition init :: "disk_file \<Rightarrow> string list option \<Rightarrow> controls \<Rightarrow> exn + session" where
  "init f dir ctl =
     (let loaded = fst (load_config f);
          assets = get_available_assets dir
      in case loaded of
           JObj cfg \<Rightarrow>
             Inr (build_chars_tab
               \<lparr>config_data = init_enabled_characters cfg assets,
                available_assets = assets,
                char_vars = [],
                controls = ctl\<rparr>)
         | _ \<Rightarrow> Inl AttributeError)"

subsection \<open>\<^verbatim>\<open>save_config\<close>\<close>

datatype save_result = Saved | EmptySelection | InvalidNumeric | CouldNotSave exn

text \<open>The value \<^verbatim>\<open>save_config\<close> returns to its caller.\<close>

fun returned :: "save_result \<Rightarrow> bool" where
  "returned Saved = True"
| "returned EmptySelection = False"
| "returned InvalidNumeric = False"
| "returned (CouldNotSave e) = False"

definition chosen_chars :: "session \<Rightarrow> string list" where
  "chosen_chars s = map fst (filter snd (char_vars s))"

definition reading :: "'a tkvar \<Rightarrow> ('a \<Rightarrow> exn + 'b) \<Rightarrow> exn + 'b" where
  "reading var k = (case tk_get var of Inl e \<Rightarrow> Inl e | Inr v \<Rightarrow> k v)"

text \<open>The dictionary literal of \<^verbatim>\<open>save_config\<close>: the controls are read in the order
  of the literal, and the first read that raises ends it.\<close>

definition new_config :: "controls \<Rightarrow> string list \<Rightarrow> exn + dict" where
  "new_config c chosen =
     reading (speed_var c) (\<lambda>speed.
     reading (population_var c) (\<lambda>population.
     reading (scale_var c) (\<lambda>scale.
     reading (rand_var c) (\<lambda>randomness.
     reading (bg_var c) (\<lambda>background_effect.
     reading (cycle_settings_var c) (\<lambda>cycle_settings.
     reading (bg_cycle_sec_var c) (\<lambda>bg_cycle_seconds.
     reading (lens_var c) (\<lambda>lens_effect.
       Inr [(''speed'', JFloat speed),
            (''population'', JInt population),
            (''scale'', JFloat scale),
            (''randomness'', JFloat randomness),
            (''background_effect'', JStr background_effect),
            (''cycle_settings'', JBool cycle_settings),
            (''bg_cycle_seconds'', JInt bg_cycle_seconds),
            (''lens_effect'', JStr lens_effect),
            (''enabled_characters'', JList (map JStr chosen))]))))))))"

definition show_dialog :: "bool \<Rightarrow> dialog \<Rightarrow> world \<Rightarrow> world" where
  "show_dialog show_msg d w = (if show_msg then w\<lparr>dialogs := dialogs w @ [d]\<rparr> else w)"

text \<open>
  \<^verbatim>\<open>with open(CONFIG_FILE, 'w') as f: json.dump(self.config_data, f, indent=2)\<close>.
  When \<^verbatim>\<open>open\<close> raises, the file is as it was. Once it is open the file has been
  truncated: when the write raises, or \<^verbatim>\<open>json.dump\<close> raises on an integer it cannot
  write, what is left is the beginning of a document, which \<^verbatim>\<open>json.load\<close> rejects.
  The exception comes with the world it leaves.
\<close>

definition write_config :: "dict \<Rightarrow> world \<Rightarrow> (exn \<times> world) + world" where
  "write_config d w =
     (case write_raises w of
        Some e \<Rightarrow> Inl (e, w)
      | None \<Rightarrow>
          let truncated = w\<lparr>config_file := Malformed JSONDecodeError\<rparr> in
          (case dump_raises w of
             Some e \<Rightarrow> Inl (e, truncated)
           | None \<Rightarrow>
               if json_dumpable (JObj d) then Inr (w\<lparr>config_file := Document (JObj d)\<rparr>)
               else Inl (ValueError, truncated)))"

text \<open>The two handlers of \<^verbatim>\<open>save_config\<close>, \<^verbatim>\<open>except ValueError\<close> first.\<close>

definition on_exception ::
  "bool \<Rightarrow> exn \<Rightarrow> session \<Rightarrow> world \<Rightarrow> save_result \<times> session \<times> world" where
  "on_exception show_msg e s w =
     (if is_ValueError e then (InvalidNumeric, s, show_dialog show_msg InvalidNumericValues w)
      else (CouldNotSave e, s, show_dialog show_msg (CouldNotSaveConfig e) w))"

definition save_config :: "bool \<Rightarrow> session \<Rightarrow> world \<Rightarrow> save_result \<times> session \<times> world" where
  "save_config show_msg s w =
     (let chosen = chosen_chars s in
      if chosen = [] then (EmptySelection, s, show_dialog show_msg SelectAtLeastOne w)
      else
        case new_config (controls s) chosen of
          Inl e \<Rightarrow> on_exception show_msg e s w
        | Inr new \<Rightarrow>
            let s' = s\<lparr>config_data := dict_update (config_data s) new\<rparr> in
            (case write_config (config_data s') w of
               Inl (e, w1) \<Rightarrow> on_exception show_msg e s' w1
             | Inr w' \<Rightarrow> (Saved, s', show_dialog show_msg SettingsSaved w')))"

subsection \<open>\<^verbatim>\<open>preview_screensaver\<close>\<close>

definition server_cmd :: "string list" where
  "server_cmd = [''python3'', ''-m'', ''http.server'', ''8080'']"

definition browser_cmd :: "string list" where
  "browser_cmd =
     [''chromium-browser'', ''--app=http://localhost:8080/index.html?preview=1'',
      ''--kiosk'', ''--incognito'', ''--new-window'']"

definition popen :: "string list \<Rightarrow> world \<Rightarrow> (exn \<times> world) + world" where
  "popen cmd w =
     (let w1 = w\<lparr>popen_calls := popen_calls w @ [cmd]\<rparr> in
      case popen_raises w cmd of
        Some e \<Rightarrow> Inl (e, w1)
      | None \<Rightarrow> Inr (w1\<lparr>processes := processes w1 @ [cmd]\<rparr>))"

text \<open>The \<^verbatim>\<open>try\<close> block of \<^verbatim>\<open>preview_screensaver\<close> with its handler.\<close>

definition launch :: "world \<Rightarrow> world" where
  "launch w =
     (case popen server_cmd w of
        Inl (e, w1) \<Rightarrow> w1\<lparr>dialogs := dialogs w1 @ [FailedToOpenPreview e]\<rparr>
      | Inr w1 \<Rightarrow>
          (case popen browser_cmd w1 of
             Inl (e, w2) \<Rightarrow> w2\<lparr>dialogs := dialogs w2 @ [FailedToOpenPreview e]\<rparr>
           | Inr w2 \<Rightarrow> w2))"

definition preview_screensaver :: "session \<Rightarrow> world \<Rightarrow> session \<times> world" where
  "preview_screensaver s w =
     (case save_config False s w of
        (r, s', w') \<Rightarrow> if returned r then (s', launch w') else (s', w'))"

subsection \<open>The event loop\<close>

text \<open>
  What the user can do between two events of \<^verbatim>\<open>mainloop\<close>: click the check box of an
  asset (only assets of the catalog have one), change the controls of the configuration
  tab, press Save (\<^verbatim>\<open>save_config\<close> with its default \<^verbatim>\<open>show_msg=True\<close>) or Preview.
\<close>

datatype action = Toggle string | SetControls controls | Save | Preview

fun step :: "action \<Rightarrow> session \<times> world \<Rightarrow> session \<times> world" where
  "step (Toggle a) (s, w) =
     (s\<lparr>char_vars := map (\<lambda>(k, v). (k, if k = a then \<not> v else v)) (char_vars s)\<rparr>, w)"
| "step (SetControls c) (s, w) = (s\<lparr>controls := c\<rparr>, w)"
| "step Save (s, w) = (case save_config True s w of (r, s', w') \<Rightarrow> (s', w'))"
| "step Preview (s, w) = preview_screensaver s w"

definition run :: "action list \<Rightarrow> session \<times> world \<Rightarrow> session \<times> world" where
  "run acts sw = fold step acts sw"

subsection \<open>Predicates on the controls\<close>

text \<open>One of the five numeric controls cannot be read.\<close>

definition non_numeric :: "controls \<Rightarrow> bool" where
  "non_numeric c \<longleftrightarrow>
     unreadable (speed_var c) \<or> unreadable (population_var c) \<or> unreadable (scale_var c) \<or>
     unreadable (rand_var c) \<or> unreadable (bg_cycle_sec_var c)"

subsection \<open>Sessions of one catalog\<close>

text \<open>The session shows the catalog \<open>cat\<close>, and its check boxes are assets of that
  catalog, in the order of the catalog.\<close>

definition catalog_session :: "string list \<Rightarrow> session \<Rightarrow> bool" where
  "catalog_session cat s \<longleftrightarrow>
     available_assets s = cat \<and> subseq (map fst (char_vars s)) cat"

subsection \<open>Example inputs\<close>

text \<open>The values of the default configuration in the eight controls, and a world in which
  nothing fails and nothing has happened yet.\<close>

definition default_controls :: controls where
  "default_controls =
     \<lparr>speed_var = Holds 1, population_var = Holds 17, scale_var = Holds 1,
      rand_var = Holds (1 / 2), bg_var = Holds ''pure-black'',
      cycle_settings_var = Holds False, bg_cycle_sec_var = Holds 10,
      lens_var = Holds ''none''\<rparr>"

definition quiet_world :: "disk_file \<Rightarrow> world" where
  "quiet_world f =
     \<lparr>config_file = f, write_raises = None, dump_raises = None, dialogs = [],
      popen_raises = (\<lambda>cmd. None), popen_calls = [], processes = []\<rparr>"

text \<open>A session with one asset whose check box is not ticked.\<close>

definition unticked_session :: "controls \<Rightarrow> session" where
  "unticked_session c =
     \<lparr>config_data = DEFAULT_CONFIG, available_assets = [''a.svg''],
      char_vars = [(''a.svg'', False)], controls = c\<rparr>"

text \<open>The same session with the box ticked.\<close>

definition ticked_session :: "controls \<Rightarrow> session" where
  "ticked_session c =
     \<lparr>config_data = DEFAULT_CONFIG, available_assets = [''a.svg''],
      char_vars = [(''a.svg'', True)], controls = c\<rparr>"

text \<open>A persisted document that names an asset the catalog no longer has.\<close>

definition ghost_doc :: dict where
  "ghost_doc = [(''enabled_characters'', JList [JStr ''ghost.svg''])]"

text \<open>A persisted document with a key the editor does not manage.\<close>

definition themed_doc :: dict where
  "themed_doc = [(''theme'', JStr ''dark''), (''enabled_characters'', JList [JStr ''a.svg''])]"

text \<open>A world in which the browser cannot be started.\<close>

definition no_browser_world :: world where
  "no_browser_world =
     (quiet_world Absent)\<lparr>popen_raises :=
        (\<lambda>cmd. if cmd = browser_cmd then Some OSError else None)\<rparr>"

section \<open>Reading the controls and updating the dictionary\<close>

lemma tk_get_Inr_iff: "tk_get var = Inr v \<longleftrightarrow> var = Holds v"
  by (cases var) simp_all

lemma tk_get_Inl_iff: "tk_get var = Inl e \<longleftrightarrow> var = Invalid e"
  by (cases var) simp_all

lemma new_config_Inr:
  assumes "new_config c chosen = Inr new"
  shows "\<exists>speed population scale randomness bg cyc secs lens.
           speed_var c = Holds speed \<and> population_var c = Holds population \<and>
           scale_var c = Holds scale \<and> rand_var c = Holds randomness \<and>
           bg_var c = Holds bg \<and> cycle_settings_var c = Holds cyc \<and>
           bg_cycle_sec_var c = Holds secs \<and> lens_var c = Holds lens \<and>
           new = [(''speed'', JFloat speed),
            (''population'', JInt population),
            (''scale'', JFloat scale),
            (''randomness'', JFloat randomness),
            (''background_effect'', JStr bg),
            (''cycle_settings'', JBool cyc),
            (''bg_cycle_seconds'', JInt secs),
            (''lens_effect'', JStr lens),
            (''enabled_characters'', JList (map JStr chosen))]"
  using assms
  by (auto simp: new_config_def reading_def tk_get_Inr_iff split: sum.splits)

lemma new_config_keys:
  "new_config c chosen = Inr new \<Longrightarrow> map fst new = managed_keys"
  by (auto dest!: new_config_Inr simp: managed_keys_def)

lemma map_of_dict_update:
  "map_of (dict_update d new) = map_of d ++ map_of (rev new)"
proof (induction new arbitrary: d)
  case Nil
  then show ?case by (simp add: dict_update_def)
next
  case (Cons kv new)
  obtain k v where kv: "kv = (k, v)" by (cases kv)
  have "map_of (dict_update d (kv # new)) = map_of (dict_update (AList.update k v d) new)"
    by (simp add: dict_update_def kv)
  also have "\<dots> = map_of (AList.update k v d) ++ map_of (rev new)"
    by (rule Cons.IH)
  also have "\<dots> = (map_of d)(k \<mapsto> v) ++ map_of (rev new)"
    by (simp only: update_conv')
  also have "\<dots> = map_of d ++ map_of (rev (kv # new))"
    by (rule ext) (simp add: kv map_add_def split: option.splits)
  finally show ?case .
qed

lemma dict_update_other:
  "k \<notin> fst ` set new \<Longrightarrow> map_of (dict_update d new) k = map_of d k"
  by (simp add: map_of_dict_update map_add_def map_of_eq_None_iff [THEN iffD2]
        split: option.splits)

section \<open>What one call of \<^verbatim>\<open>save_config\<close> does\<close>

lemma save_config_Saved:
  assumes "save_config show_msg s w = (Saved, s', w')"
  shows "chosen_chars s \<noteq> [] \<and> write_raises w = None \<and> dump_raises w = None \<and>
         (\<exists>new. new_config (controls s) (chosen_chars s) = Inr new \<and>
            s' = s\<lparr>config_data := dict_update (config_data s) new\<rparr> \<and>
            w' = show_dialog show_msg SettingsSaved
                   (w\<lparr>config_file := Document (JObj (dict_update (config_data s) new))\<rparr>))"
  using assms
  by (auto simp: save_config_def Let_def on_exception_def write_config_def
           split: if_splits sum.splits option.splits prod.splits)

lemma save_config_session:
  assumes "save_config show_msg s w = (r, s', w')"
  shows "char_vars s' = char_vars s \<and> available_assets s' = available_assets s \<and>
         controls s' = controls s"
  using assms
  by (auto simp: save_config_def Let_def on_exception_def write_config_def
           split: if_splits sum.splits option.splits prod.splits)

lemma save_config_unmanaged:
  assumes "save_config show_msg s w = (r, s', w')" and "k \<notin> set managed_keys"
  shows "map_of (config_data s') k = map_of (config_data s) k"
  using assms
  by (auto simp: save_config_def Let_def on_exception_def write_config_def
                 dict_update_other new_config_keys [symmetric]
           split: if_splits sum.splits option.splits prod.splits)

lemma non_numeric_raises:
  "non_numeric c \<Longrightarrow> \<exists>e. new_config c chosen = Inl e"
  by (cases "new_config c chosen") (auto dest!: new_config_Inr simp: non_numeric_def)

lemma subseq_set_mono: "subseq xs ys \<Longrightarrow> set xs \<subseteq> set ys"
  by (induction rule: list_emb.induct) auto

lemma saved_written:
  assumes "save_config show_msg s w = (Saved, s', w')"
  shows "config_file w' = Document (JObj (config_data s')) \<and>
         saved_chars (config_data s') = map JStr (chosen_chars s) \<and>
         chosen_chars s \<noteq> []"
proof -
  from save_config_Saved [OF assms] obtain new where
    ne: "chosen_chars s \<noteq> []" and
    new: "new_config (controls s) (chosen_chars s) = Inr new" and
    s': "s' = s\<lparr>config_data := dict_update (config_data s) new\<rparr>" and
    w': "w' = show_dialog show_msg SettingsSaved
                (w\<lparr>config_file := Document (JObj (dict_update (config_data s) new))\<rparr>)"
    by blast
  from new_config_Inr [OF new]
  have "map_of (rev new) ''enabled_characters'' = Some (JList (map JStr (chosen_chars s)))"
    by auto
  then have "saved_chars (dict_update (config_data s) new) = map JStr (chosen_chars s)"
    by (simp add: saved_chars_def map_of_dict_update map_add_def)
  with ne s' w' show ?thesis by (simp add: show_dialog_def)
qed

lemma save_config_world:
  assumes "save_config show_msg s w = (r, s', w')"
  shows "popen_raises w' = popen_raises w \<and> popen_calls w' = popen_calls w \<and>
         processes w' = processes w \<and> write_raises w' = write_raises w \<and>
         (\<not> show_msg \<longrightarrow> dialogs w' = dialogs w)"
  using assms
  by (auto simp: save_config_def Let_def on_exception_def write_config_def show_dialog_def
           split: if_splits sum.splits option.splits prod.splits)

section \<open>The check boxes follow the catalog\<close>

lemma build_chars_tab_frame:
  "config_data (build_chars_tab s) = config_data s \<and>
   available_assets (build_chars_tab s) = available_assets s \<and>
   controls (build_chars_tab s) = controls s"
  by (simp add: build_chars_tab_def Let_def)

lemma fold_update_keys:
  "\<exists>ys. map fst (fold (\<lambda>a cv. AList.update a (f a) cv) xs acc) = map fst acc @ ys \<and>
        subseq ys xs"
proof (induction xs arbitrary: acc)
  case Nil
  then show ?case by simp
next
  case (Cons a xs)
  from Cons.IH [of "AList.update a (f a) acc"] obtain ys where
    ys: "map fst (fold (\<lambda>a cv. AList.update a (f a) cv) xs (AList.update a (f a) acc)) =
           map fst (AList.update a (f a) acc) @ ys" "subseq ys xs"
    by blast
  show ?case
  proof (cases "a \<in> set (map fst acc)")
    case True
    with ys show ?thesis by (auto simp: update_keys intro: subseq_Cons')
  next
    case False
    with ys have "map fst (fold (\<lambda>a cv. AList.update a (f a) cv) (a # xs) acc) =
        map fst acc @ (a # ys)" by (simp add: update_keys)
    moreover have "subseq (a # ys) (a # xs)" using ys(2) by simp
    ultimately show ?thesis by blast
  qed
qed

lemma build_chars_tab_keys:
  "char_vars s = [] \<Longrightarrow> subseq (map fst (char_vars (build_chars_tab s))) (available_assets s)"
  using fold_update_keys [of "\<lambda>a. JStr a \<in> set (saved_chars (config_data s))" "available_assets s" "[]"]
  by (auto simp: build_chars_tab_def Let_def)

lemma init_Inr:
  assumes "init f dir ctl = Inr s"
  shows "\<exists>cfg. fst (load_config f) = JObj cfg \<and>
           config_data s = init_enabled_characters cfg (get_available_assets dir) \<and>
           controls s = ctl \<and> catalog_session (get_available_assets dir) s"
proof -
  from assms obtain cfg where cfg: "fst (load_config f) = JObj cfg"
    and s: "s = build_chars_tab
               \<lparr>config_data = init_enabled_characters cfg (get_available_assets dir),
                available_assets = get_available_assets dir,
                char_vars = [],
                controls = ctl\<rparr>"
    by (auto simp: init_def Let_def split: json.splits)
  have "catalog_session (get_available_assets dir) s"
    unfolding catalog_session_def s
    using build_chars_tab_keys
      [of "\<lparr>config_data = init_enabled_characters cfg (get_available_assets dir),
                available_assets = get_available_assets dir,
                char_vars = [],
                controls = ctl\<rparr>"]
    by (simp add: build_chars_tab_frame)
  with cfg s show ?thesis by (simp add: build_chars_tab_frame)
qed

lemma init_enabled_characters_other:
  "k \<noteq> ''enabled_characters'' \<Longrightarrow>
   map_of (init_enabled_characters cfg assets) k = map_of cfg k"
  by (simp add: init_enabled_characters_def update_conv')

lemma toggle_keys:
  "map fst (map (\<lambda>(k, v). (k, if k = x then \<not> v else v)) cv) = map fst cv"
  by (induction cv) auto

lemma step_catalog_session:
  assumes "catalog_session cat s" and "step a (s, w) = (s', w')"
  shows "catalog_session cat s'"
proof (cases a)
  case (Toggle x)
  with assms(2) have s': "s' = s\<lparr>char_vars := map (\<lambda>(k, v). (k, if k = x then \<not> v else v)) (char_vars s)\<rparr>"
    by auto
  have "map fst (char_vars s') = map fst (char_vars s)"
    unfolding s' by (simp add: toggle_keys del: map_map)
  moreover have "available_assets s' = available_assets s"
    unfolding s' by simp
  ultimately show ?thesis
    using assms(1) unfolding catalog_session_def by simp
next
  case (SetControls c)
  with assms show ?thesis by (auto simp: catalog_session_def)
next
  case Save
  with assms show ?thesis
    by (auto simp: catalog_session_def split: prod.splits dest!: save_config_session)
next
  case Preview
  with assms show ?thesis
    by (auto simp: catalog_session_def preview_screensaver_def
             split: prod.splits if_splits dest!: save_config_session)
qed

lemma step_unmanaged:
  assumes "step a (s, w) = (s', w')" and "k \<notin> set managed_keys"
  shows "map_of (config_data s') k = map_of (config_data s) k"
proof (cases a)
  case (Toggle x)
  with assms show ?thesis by auto
next
  case (SetControls c)
  with assms show ?thesis by auto
next
  case Save
  with assms show ?thesis
    by (auto split: prod.splits dest: save_config_unmanaged)
next
  case Preview
  with assms show ?thesis
    by (auto simp: preview_screensaver_def split: prod.splits if_splits
             dest: save_config_unmanaged)
qed

lemma run_catalog_session:
  "catalog_session cat s \<Longrightarrow> run acts (s, w) = (s', w') \<Longrightarrow> catalog_session cat s'"
proof (induction acts arbitrary: s w)
  case Nil
  then show ?case by (simp add: run_def)
next
  case (Cons a acts)
  obtain s1 w1 where st: "step a (s, w) = (s1, w1)" by (cases "step a (s, w)")
  with Cons.prems(2) have "run acts (s1, w1) = (s', w')" by (simp add: run_def)
  moreover have "catalog_session cat s1"
    using Cons.prems(1) st by (rule step_catalog_session)
  ultimately show ?case by (rule Cons.IH [rotated])
qed

lemma run_unmanaged:
  "run acts (s, w) = (s', w') \<Longrightarrow> k \<notin> set managed_keys \<Longrightarrow>
   map_of (config_data s') k = map_of (config_data s) k"
proof (induction acts arbitrary: s w)
  case Nil
  then show ?case by (simp add: run_def)
next
  case (Cons a acts)
  obtain s1 w1 where st: "step a (s, w) = (s1, w1)" by (cases "step a (s, w)")
  with Cons.prems(1) have "run acts (s1, w1) = (s', w')" by (simp add: run_def)
  then have "map_of (config_data s') k = map_of (config_data s1) k"
    using Cons.prems(2) by (rule Cons.IH)
  also have "\<dots> = map_of (config_data s) k"
    using st Cons.prems(2) by (rule step_unmanaged)
  finally show ?case .
qed

lemma chosen_chars_subseq:
  "catalog_session cat s \<Longrightarrow> subseq (chosen_chars s) cat"
proof -
  assume a: "catalog_session cat s"
  have "subseq (map fst (filter snd (char_vars s))) (map fst (char_vars s))"
    by (simp add: subseq_map)
  with a show ?thesis
    unfolding chosen_chars_def catalog_session_def by (blast intro: subseq_order.order_trans)
qed

section \<open>Failures of \<^verbatim>\<open>save_config\<close>\<close>

text \<open>
  Claim C2. Whatever the other controls hold, \<^verbatim>\<open>save_config\<close> with no character
  ticked takes the empty-selection branch: it returns \<^verbatim>\<open>False\<close>, shows the
  message of that branch when messages are on, leaves the session as it was and does not
  touch the configuration file.
\<close>

theorem save_config_empty_selection:
  assumes "chosen_chars s = []"
  shows "save_config show_msg s w =
           (EmptySelection, s, show_dialog show_msg SelectAtLeastOne w) \<and>
         \<not> returned (fst (save_config show_msg s w)) \<and>
         config_file (snd (snd (save_config show_msg s w))) = config_file w"
  using assms by (simp add: save_config_def show_dialog_def)

theorem save_config_empty_selection_witness:
  "chosen_chars (unticked_session default_controls) = [] \<and>
   save_config True (unticked_session default_controls) (quiet_world Absent) =
     (EmptySelection, unticked_session default_controls,
      (quiet_world Absent)\<lparr>dialogs := [SelectAtLeastOne]\<rparr>) \<and>
   config_file (snd (snd (save_config True (unticked_session default_controls)
     (quiet_world Absent)))) = Absent"
  using save_config_empty_selection [of "unticked_session default_controls" True "quiet_world Absent"]
  by (simp add: chosen_chars_def unticked_session_def show_dialog_def quiet_world_def)

text \<open>
  Claim C3, as the code has it. The check for an empty selection comes first: with no
  character ticked and a numeric control that cannot be read, reading the controls would
  raise, but the failure reported is the empty selection.
\<close>

theorem empty_selection_checked_first:
  assumes "chosen_chars s = []" and "non_numeric (controls s)"
  shows "(\<exists>e. new_config (controls s) (chosen_chars s) = Inl e) \<and>
         fst (save_config show_msg s w) = EmptySelection \<and>
         dialogs (snd (snd (save_config True s w))) = dialogs w @ [SelectAtLeastOne]"
  using assms non_numeric_raises [of "controls s" "chosen_chars s"]
  by (simp add: save_config_def show_dialog_def)

theorem empty_selection_checked_first_witness:
  "chosen_chars (unticked_session (default_controls\<lparr>bg_cycle_sec_var := Invalid ValueError\<rparr>)) = [] \<and>
   non_numeric (default_controls\<lparr>bg_cycle_sec_var := Invalid ValueError\<rparr>) \<and>
   fst (save_config True
     (unticked_session (default_controls\<lparr>bg_cycle_sec_var := Invalid ValueError\<rparr>))
     (quiet_world Absent)) = EmptySelection"
  using empty_selection_checked_first
    [of "unticked_session (default_controls\<lparr>bg_cycle_sec_var := Invalid ValueError\<rparr>)"
        True "quiet_world Absent"]
  by (simp add: chosen_chars_def unticked_session_def non_numeric_def default_controls_def)

text \<open>
  The claim as stated asks for the numeric error in that situation. With no box ticked and
  a cycle time whose read raises \<open>ValueError\<close>, the result is not the numeric error and
  the one message shown is the one of the empty selection.
\<close>

theorem numeric_error_reported_first_counterexample:
  "chosen_chars (unticked_session (default_controls\<lparr>bg_cycle_sec_var := Invalid ValueError\<rparr>)) = [] \<and>
   new_config (default_controls\<lparr>bg_cycle_sec_var := Invalid ValueError\<rparr>) [] = Inl ValueError \<and>
   fst (save_config True
     (unticked_session (default_controls\<lparr>bg_cycle_sec_var := Invalid ValueError\<rparr>))
     (quiet_world Absent)) \<noteq> InvalidNumeric \<and>
   dialogs (snd (snd (save_config True
     (unticked_session (default_controls\<lparr>bg_cycle_sec_var := Invalid ValueError\<rparr>))
     (quiet_world Absent)))) = [SelectAtLeastOne]"
  by (simp add: chosen_chars_def unticked_session_def default_controls_def new_config_def
        reading_def save_config_def show_dialog_def quiet_world_def)

text \<open>
  Claim C8. The claim asks for the numeric error whenever a numeric control holds no
  number, and the handler \<^verbatim>\<open>except ValueError\<close> with its message about invalid numeric
  values is there for it. The read of a Tk variable that holds no number raises
  \<open>TclError\<close>, which that handler does not catch. With one character ticked, the
  random background chosen (which shows the entry of the cycle time) and a cycle time that
  is no number, \<^verbatim>\<open>save_config\<close> takes the generic handler: it returns
  \<^verbatim>\<open>False\<close> and shows the message of a failed write, not the one of an invalid number.
  The session and the configuration file are as they were.
\<close>

theorem non_numeric_entry_takes_generic_handler:
  "chosen_chars (ticked_session
     (default_controls\<lparr>bg_var := Holds ''random'', bg_cycle_sec_var := Invalid TclError\<rparr>)) =
     [''a.svg''] \<and>
   non_numeric
     (default_controls\<lparr>bg_var := Holds ''random'', bg_cycle_sec_var := Invalid TclError\<rparr>) \<and>
   save_config True
     (ticked_session
       (default_controls\<lparr>bg_var := Holds ''random'', bg_cycle_sec_var := Invalid TclError\<rparr>))
     (quiet_world (Document (JObj DEFAULT_CONFIG))) =
   (CouldNotSave TclError,
    ticked_session
      (default_controls\<lparr>bg_var := Holds ''random'', bg_cycle_sec_var := Invalid TclError\<rparr>),
    (quiet_world (Document (JObj DEFAULT_CONFIG)))\<lparr>dialogs := [CouldNotSaveConfig TclError]\<rparr>)"
  by (simp add: chosen_chars_def ticked_session_def default_controls_def non_numeric_def
        save_config_def new_config_def reading_def on_exception_def show_dialog_def
        quiet_world_def)

section \<open>Loading\<close>

text \<open>
  Claim C4. When \<^verbatim>\<open>config.json\<close> does not exist, or opening and parsing it raises,
  \<^verbatim>\<open>load_config\<close> returns the compiled-in defaults with the documented values.
  \<^verbatim>\<open>load_config\<close> has a result for every state of the file: nothing is raised.
\<close>

theorem load_config_default_fallback:
  assumes "\<not> exists_file f \<or> (\<exists>e. json_load f = Inl e)"
  shows "fst (load_config f) = JObj DEFAULT_CONFIG \<and>
         map_of DEFAULT_CONFIG ''speed'' = Some (JFloat 1) \<and>
         map_of DEFAULT_CONFIG ''population'' = Some (JInt 17) \<and>
         map_of DEFAULT_CONFIG ''scale'' = Some (JFloat 1) \<and>
         map_of DEFAULT_CONFIG ''randomness'' = Some (JFloat (1 / 2)) \<and>
         map_of DEFAULT_CONFIG ''background_effect'' = Some (JStr ''pure-black'') \<and>
         map_of DEFAULT_CONFIG ''cycle_settings'' = Some (JBool False) \<and>
         map_of DEFAULT_CONFIG ''bg_cycle_seconds'' = Some (JInt 10) \<and>
         map_of DEFAULT_CONFIG ''lens_effect'' = Some (JStr ''none'') \<and>
         map_of DEFAULT_CONFIG ''enabled_characters'' = Some (JList []) \<and>
         set (map fst DEFAULT_CONFIG) = set managed_keys"
proof -
  have "fst (load_config f) = JObj DEFAULT_CONFIG"
    using assms by (cases f) (auto simp: load_config_def)
  then show ?thesis by (auto simp: DEFAULT_CONFIG_def managed_keys_def)
qed

theorem load_config_default_fallback_witness:
  "\<not> exists_file Absent \<and> json_load (Malformed JSONDecodeError) = Inl JSONDecodeError \<and>
   load_config Absent = (JObj DEFAULT_CONFIG, None) \<and>
   load_config (Malformed JSONDecodeError) = (JObj DEFAULT_CONFIG, Some JSONDecodeError)"
  using load_config_default_fallback [of Absent]
    load_config_default_fallback [of "Malformed JSONDecodeError"]
  by (simp add: load_config_def)

text \<open>
  Claim C5. In the session the constructor returns for a loaded object, the configuration
  is the loaded one after lines 38 to 44. A loaded selection that is empty (an empty list,
  no list, or no such key) is replaced by the identifiers of the catalog in catalog order,
  which is the empty list again when the catalog is empty; a non-empty loaded selection
  leaves the configuration as loaded. No other key is touched.
\<close>

theorem init_fills_empty_selection:
  assumes "fst (load_config f) = JObj cfg" and "init f dir ctl = Inr s"
  shows "config_data s = init_enabled_characters cfg (get_available_assets dir) \<and>
         available_assets s = get_available_assets dir \<and>
         (saved_chars cfg = [] \<longrightarrow>
            saved_chars (config_data s) = map JStr (get_available_assets dir)) \<and>
         (saved_chars cfg = [] \<and> get_available_assets dir = [] \<longrightarrow>
            saved_chars (config_data s) = []) \<and>
         (saved_chars cfg \<noteq> [] \<longrightarrow> config_data s = cfg) \<and>
         (\<forall>k. k \<noteq> ''enabled_characters'' \<longrightarrow> map_of (config_data s) k = map_of cfg k)"
proof -
  from init_Inr [OF assms(2)] assms(1)
  have cd: "config_data s = init_enabled_characters cfg (get_available_assets dir)"
    and cat: "catalog_session (get_available_assets dir) s"
    by auto
  have "saved_chars cfg = [] \<Longrightarrow>
        saved_chars (config_data s) = map JStr (get_available_assets dir)"
    by (simp add: cd init_enabled_characters_def saved_chars_def update_conv')
  moreover have "saved_chars cfg \<noteq> [] \<Longrightarrow> config_data s = cfg"
    by (simp add: cd init_enabled_characters_def)
  ultimately show ?thesis
    using cat by (auto simp: cd init_enabled_characters_other catalog_session_def)
qed

theorem init_fills_empty_selection_witness:
  "fst (load_config (Document (JObj [(''enabled_characters'', JList [])]))) =
     JObj [(''enabled_characters'', JList [])] \<and>
   saved_chars [(''enabled_characters'', JList [])] = [] \<and>
   init (Document (JObj [(''enabled_characters'', JList [])]))
        (Some [''a.svg'', ''b.svg'', ''c.svg'']) default_controls =
     Inr \<lparr>config_data =
            [(''enabled_characters'', JList [JStr ''a.svg'', JStr ''b.svg'', JStr ''c.svg''])],
          available_assets = [''a.svg'', ''b.svg'', ''c.svg''],
          char_vars = [(''a.svg'', True), (''b.svg'', True), (''c.svg'', True)],
          controls = default_controls\<rparr> \<and>
   saved_chars (init_enabled_characters [(''enabled_characters'', JList [])]
       (get_available_assets (Some [''a.svg'', ''b.svg'', ''c.svg'']))) =
     [JStr ''a.svg'', JStr ''b.svg'', JStr ''c.svg'']"
proof -
  let ?doc = "[(''enabled_characters'', JList [])]"
  let ?dir = "Some [''a.svg'', ''b.svg'', ''c.svg'']"
  let ?start = "\<lparr>config_data =
            [(''enabled_characters'', JList [JStr ''a.svg'', JStr ''b.svg'', JStr ''c.svg''])],
          available_assets = [''a.svg'', ''b.svg'', ''c.svg''],
          char_vars = [(''a.svg'', True), (''b.svg'', True), (''c.svg'', True)],
          controls = default_controls\<rparr>"
  have l: "fst (load_config (Document (JObj ?doc))) = JObj ?doc"
    by (simp add: load_config_def)
  have e: "saved_chars ?doc = []"
    by (simp add: saved_chars_def)
  have i: "init (Document (JObj ?doc)) ?dir default_controls = Inr ?start"
    by (simp add: load_config_def saved_chars_def init_def init_enabled_characters_def
          build_chars_tab_def matches_svg_def)
  note eq = init_fills_empty_selection [OF l i, THEN conjunct1, symmetric]
  have "saved_chars (init_enabled_characters ?doc (get_available_assets ?dir)) =
      [JStr ''a.svg'', JStr ''b.svg'', JStr ''c.svg'']"
    by (subst eq) (simp add: saved_chars_def)
  with l e i show ?thesis by simp
qed

section \<open>What a successful save writes\<close>

text \<open>
  Claim C1, as the code has it. In a session started from the persisted document and the
  assets directory, after any sequence of user actions, a successful save writes as
  \<open>enabled_characters\<close> exactly the ticked check boxes. Each of them is an asset of the
  catalog, so an identifier that is not in the catalog is not in the document written.
\<close>

theorem save_writes_ticked_catalog_entries_only:
  assumes "init f dir ctl = Inr s0" and "run acts (s0, w0) = (s, w)"
    and "save_config show_msg s w = (Saved, s', w')"
  shows "\<exists>doc. config_file w' = Document (JObj doc) \<and>
           saved_chars doc = map JStr (chosen_chars s) \<and>
           set (chosen_chars s) \<subseteq> set (get_available_assets dir) \<and>
           (\<forall>g. g \<notin> set (get_available_assets dir) \<longrightarrow> JStr g \<notin> set (saved_chars doc))"
proof -
  from init_Inr [OF assms(1)] have "catalog_session (get_available_assets dir) s0"
    by blast
  then have "catalog_session (get_available_assets dir) s"
    using assms(2) by (rule run_catalog_session)
  then have "subseq (chosen_chars s) (get_available_assets dir)"
    by (rule chosen_chars_subseq)
  then have sub: "set (chosen_chars s) \<subseteq> set (get_available_assets dir)"
    by (rule subseq_set_mono)
  from saved_written [OF assms(3)] sub show ?thesis by auto
qed

theorem save_writes_ticked_catalog_entries_only_witness:
  "init (Document (JObj ghost_doc)) (Some [''a.svg'']) default_controls =
     Inr \<lparr>config_data = ghost_doc, available_assets = [''a.svg''],
          char_vars = [(''a.svg'', False)], controls = default_controls\<rparr> \<and>
   fst (save_config True
     (fst (run [Toggle ''a.svg'']
        (\<lparr>config_data = ghost_doc, available_assets = [''a.svg''],
          char_vars = [(''a.svg'', False)], controls = default_controls\<rparr>,
         quiet_world (Document (JObj ghost_doc)))))
     (quiet_world (Document (JObj ghost_doc)))) = Saved \<and>
   JStr ''ghost.svg'' \<notin> set (saved_chars (config_data (fst (snd (save_config True
     (fst (run [Toggle ''a.svg'']
        (\<lparr>config_data = ghost_doc, available_assets = [''a.svg''],
          char_vars = [(''a.svg'', False)], controls = default_controls\<rparr>,
         quiet_world (Document (JObj ghost_doc)))))
     (quiet_world (Document (JObj ghost_doc))))))))"
proof -
  let ?f = "Document (JObj ghost_doc)"
  let ?start = "\<lparr>config_data = ghost_doc, available_assets = [''a.svg''],
          char_vars = [(''a.svg'', False)], controls = default_controls\<rparr>"
  let ?tick = "?start\<lparr>char_vars := [(''a.svg'', True)]\<rparr>"
  let ?doc = "[(''enabled_characters'', JList [JStr ''a.svg'']),
            (''speed'', JFloat 1),
            (''population'', JInt 17),
            (''scale'', JFloat 1),
            (''randomness'', JFloat (1 / 2)),
            (''background_effect'', JStr ''pure-black''),
            (''cycle_settings'', JBool False),
            (''bg_cycle_seconds'', JInt 10),
            (''lens_effect'', JStr ''none'')]"
  have i: "init ?f (Some [''a.svg'']) default_controls = Inr ?start"
    unfolding ghost_doc_def
    by (simp add: load_config_def saved_chars_def init_def init_enabled_characters_def
          build_chars_tab_def matches_svg_def)
  have r: "run [Toggle ''a.svg''] (?start, quiet_world ?f) = (?tick, quiet_world ?f)"
    by (simp add: run_def)
  have sv: "save_config True ?tick (quiet_world ?f) =
      (Saved, ?tick\<lparr>config_data := ?doc\<rparr>,
       (quiet_world ?f)\<lparr>config_file := Document (JObj ?doc), dialogs := [SettingsSaved]\<rparr>)"
    unfolding ghost_doc_def
    by (simp add: save_config_def chosen_chars_def new_config_def reading_def
          default_controls_def dict_update_def write_config_def quiet_world_def
          ndigits.simps max_str_digits_def
          show_dialog_def ghost_doc_def)
  have "JStr ''ghost.svg'' \<notin> set (saved_chars ?doc)"
    by (simp add: saved_chars_def)
  with save_writes_ticked_catalog_entries_only [OF i r sv] i r sv show ?thesis
    by simp
qed

text \<open>
  The claim as stated asks that a stale identifier stays. The persisted document enables
  \<open>ghost.svg\<close>, the catalog is \<open>a.svg\<close>; the user ticks \<open>a.svg\<close>, never touches a
  control of \<open>ghost.svg\<close> (there is none) and saves. The document written enables
  \<open>a.svg\<close> alone.
\<close>

theorem stale_identifier_dropped_counterexample:
  "init (Document (JObj [(''enabled_characters'', JList [JStr ''ghost.svg''])]))
        (Some [''a.svg'']) default_controls =
     Inr \<lparr>config_data = [(''enabled_characters'', JList [JStr ''ghost.svg''])],
          available_assets = [''a.svg''],
          char_vars = [(''a.svg'', False)], controls = default_controls\<rparr> \<and>
   config_file (snd (run [Toggle ''a.svg'', Save]
     (\<lparr>config_data = [(''enabled_characters'', JList [JStr ''ghost.svg''])],
       available_assets = [''a.svg''],
       char_vars = [(''a.svg'', False)], controls = default_controls\<rparr>,
      quiet_world (Document (JObj [(''enabled_characters'', JList [JStr ''ghost.svg''])]))))) =
     Document (JObj
       [(''enabled_characters'', JList [JStr ''a.svg'']),
        (''speed'', JFloat 1),
        (''population'', JInt 17),
        (''scale'', JFloat 1),
        (''randomness'', JFloat (1 / 2)),
        (''background_effect'', JStr ''pure-black''),
        (''cycle_settings'', JBool False),
        (''bg_cycle_seconds'', JInt 10),
        (''lens_effect'', JStr ''none'')])"
  by (simp add: load_config_def saved_chars_def init_def init_enabled_characters_def
        build_chars_tab_def matches_svg_def run_def
        save_config_def chosen_chars_def new_config_def reading_def
        default_controls_def dict_update_def write_config_def quiet_world_def
          ndigits.simps max_str_digits_def
        show_dialog_def)

text \<open>
  Claim C10. In such a session the \<open>enabled_characters\<close> of a document written by a
  successful save is a non-empty subsequence of the catalog.
\<close>

theorem saved_selection_subseq_of_catalog:
  assumes "init f dir ctl = Inr s0" and "run acts (s0, w0) = (s, w)"
    and "save_config show_msg s w = (Saved, s', w')"
  shows "\<exists>doc xs. config_file w' = Document (JObj doc) \<and>
           map_of doc ''enabled_characters'' = Some (JList (map JStr xs)) \<and>
           xs \<noteq> [] \<and> subseq xs (get_available_assets dir)"
proof -
  from init_Inr [OF assms(1)] have "catalog_session (get_available_assets dir) s0"
    by blast
  then have "catalog_session (get_available_assets dir) s"
    using assms(2) by (rule run_catalog_session)
  then have sub: "subseq (chosen_chars s) (get_available_assets dir)"
    by (rule chosen_chars_subseq)
  from save_config_Saved [OF assms(3)] obtain new where
    ne: "chosen_chars s \<noteq> []" and
    new: "new_config (controls s) (chosen_chars s) = Inr new" and
    w': "w' = show_dialog show_msg SettingsSaved
                (w\<lparr>config_file := Document (JObj (dict_update (config_data s) new))\<rparr>)"
    by blast
  from new_config_Inr [OF new]
  have "map_of (rev new) ''enabled_characters'' = Some (JList (map JStr (chosen_chars s)))"
    by auto
  then have "map_of (dict_update (config_data s) new) ''enabled_characters'' =
      Some (JList (map JStr (chosen_chars s)))"
    by (simp add: map_of_dict_update map_add_def)
  with ne sub w' show ?thesis by (auto simp: show_dialog_def)
qed

theorem saved_selection_subseq_of_catalog_witness:
  "init Absent (Some [''a.svg'', ''b.svg'', ''c.svg'']) default_controls =
     Inr \<lparr>config_data =
            AList.update ''enabled_characters''
              (JList [JStr ''a.svg'', JStr ''b.svg'', JStr ''c.svg'']) DEFAULT_CONFIG,
          available_assets = [''a.svg'', ''b.svg'', ''c.svg''],
          char_vars = [(''a.svg'', True), (''b.svg'', True), (''c.svg'', True)],
          controls = default_controls\<rparr> \<and>
   saved_chars (config_data (fst (run [Toggle ''b.svg'', Save]
     (\<lparr>config_data =
            AList.update ''enabled_characters''
              (JList [JStr ''a.svg'', JStr ''b.svg'', JStr ''c.svg'']) DEFAULT_CONFIG,
          available_assets = [''a.svg'', ''b.svg'', ''c.svg''],
          char_vars = [(''a.svg'', True), (''b.svg'', True), (''c.svg'', True)],
          controls = default_controls\<rparr>, quiet_world Absent)))) =
     [JStr ''a.svg'', JStr ''c.svg''] \<and>
   subseq [''a.svg'', ''c.svg''] (get_available_assets (Some [''a.svg'', ''b.svg'', ''c.svg'']))"
proof -
  let ?dir = "Some [''a.svg'', ''b.svg'', ''c.svg'']"
  let ?start = "\<lparr>config_data =
            AList.update ''enabled_characters''
              (JList [JStr ''a.svg'', JStr ''b.svg'', JStr ''c.svg'']) DEFAULT_CONFIG,
          available_assets = [''a.svg'', ''b.svg'', ''c.svg''],
          char_vars = [(''a.svg'', True), (''b.svg'', True), (''c.svg'', True)],
          controls = default_controls\<rparr>"
  let ?tick = "?start\<lparr>char_vars := [(''a.svg'', True), (''b.svg'', False), (''c.svg'', True)]\<rparr>"
  have i: "init Absent ?dir default_controls = Inr ?start"
    unfolding DEFAULT_CONFIG_def
    by (simp add: load_config_def saved_chars_def init_def init_enabled_characters_def
          build_chars_tab_def matches_svg_def DEFAULT_CONFIG_def)
  have r: "run [Toggle ''b.svg''] (?start, quiet_world Absent) = (?tick, quiet_world Absent)"
    by (simp add: run_def)
  obtain res s' w' where sv0: "save_config True ?tick (quiet_world Absent) = (res, s', w')"
    by (cases "save_config True ?tick (quiet_world Absent)")
  have "fst (save_config True ?tick (quiet_world Absent)) = Saved"
    by (simp add: save_config_def chosen_chars_def new_config_def reading_def
          default_controls_def write_config_def quiet_world_def
          ndigits.simps max_str_digits_def dict_update_def DEFAULT_CONFIG_def)
  with sv0 have sv: "save_config True ?tick (quiet_world Absent) = (Saved, s', w')"
    by simp
  have ch: "chosen_chars ?tick = [''a.svg'', ''c.svg'']"
    by (simp add: chosen_chars_def)
  have run2: "fst (run [Toggle ''b.svg'', Save] (?start, quiet_world Absent)) = s'"
    using sv by (simp add: run_def)
  have "saved_chars (config_data s') = [JStr ''a.svg'', JStr ''c.svg'']"
    using saved_written [OF sv] ch by simp
  moreover have "subseq [''a.svg'', ''c.svg''] (get_available_assets ?dir)"
    using saved_selection_subseq_of_catalog [OF i r sv] chosen_chars_subseq [of "get_available_assets ?dir" ?tick]
    by (simp add: matches_svg_def)
  ultimately show ?thesis using i run2 by simp
qed

text \<open>
  Claim C7. A key of the loaded document that is not one of the nine managed keys has, in
  the document written by a successful save, the value it had in the loaded document.
\<close>

theorem extra_keys_preserved:
  assumes "fst (load_config f) = JObj cfg" and "init f dir ctl = Inr s0"
    and "run acts (s0, w0) = (s, w)"
    and "save_config show_msg s w = (Saved, s', w')"
    and "k \<notin> set managed_keys"
  shows "\<exists>doc. config_file w' = Document (JObj doc) \<and> map_of doc k = map_of cfg k"
proof -
  from init_Inr [OF assms(2)] assms(1)
  have "config_data s0 = init_enabled_characters cfg (get_available_assets dir)"
    by auto
  moreover from assms(5) have "k \<noteq> ''enabled_characters''"
    by (auto simp: managed_keys_def)
  ultimately have "map_of (config_data s0) k = map_of cfg k"
    by (simp add: init_enabled_characters_other)
  moreover have "map_of (config_data s) k = map_of (config_data s0) k"
    using assms(3,5) by (rule run_unmanaged)
  moreover have "map_of (config_data s') k = map_of (config_data s) k"
    using assms(4,5) by (rule save_config_unmanaged)
  moreover have "config_file w' = Document (JObj (config_data s'))"
    using saved_written [OF assms(4)] by simp
  ultimately show ?thesis by simp
qed

theorem extra_keys_preserved_witness:
  "fst (load_config (Document (JObj themed_doc))) = JObj themed_doc \<and>
   ''theme'' \<notin> set managed_keys \<and>
   init (Document (JObj themed_doc)) (Some [''a.svg'']) default_controls =
     Inr \<lparr>config_data = themed_doc, available_assets = [''a.svg''],
          char_vars = [(''a.svg'', True)], controls = default_controls\<rparr> \<and>
   config_file (snd (snd (save_config True
       \<lparr>config_data = themed_doc, available_assets = [''a.svg''],
          char_vars = [(''a.svg'', True)], controls = default_controls\<rparr>
       (quiet_world (Document (JObj themed_doc)))))) =
     Document (JObj
       [(''theme'', JStr ''dark''),
        (''enabled_characters'', JList [JStr ''a.svg'']),
        (''speed'', JFloat 1),
        (''population'', JInt 17),
        (''scale'', JFloat 1),
        (''randomness'', JFloat (1 / 2)),
        (''background_effect'', JStr ''pure-black''),
        (''cycle_settings'', JBool False),
        (''bg_cycle_seconds'', JInt 10),
        (''lens_effect'', JStr ''none'')])"
proof -
  let ?f = "Document (JObj themed_doc)"
  let ?start = "\<lparr>config_data = themed_doc, available_assets = [''a.svg''],
          char_vars = [(''a.svg'', True)], controls = default_controls\<rparr>"
  let ?doc = "[(''theme'', JStr ''dark''),
        (''enabled_characters'', JList [JStr ''a.svg'']),
        (''speed'', JFloat 1),
        (''population'', JInt 17),
        (''scale'', JFloat 1),
        (''randomness'', JFloat (1 / 2)),
        (''background_effect'', JStr ''pure-black''),
        (''cycle_settings'', JBool False),
        (''bg_cycle_seconds'', JInt 10),
        (''lens_effect'', JStr ''none'')]"
  have l: "fst (load_config ?f) = JObj themed_doc"
    by (simp add: load_config_def)
  have i: "init ?f (Some [''a.svg'']) default_controls = Inr ?start"
    unfolding themed_doc_def
    by (simp add: load_config_def saved_chars_def init_def init_enabled_characters_def
          build_chars_tab_def matches_svg_def)
  have r: "run [] (?start, quiet_world ?f) = (?start, quiet_world ?f)"
    by (simp add: run_def)
  have sv: "save_config True ?start (quiet_world ?f) =
      (Saved, ?start\<lparr>config_data := ?doc\<rparr>,
       (quiet_world ?f)\<lparr>config_file := Document (JObj ?doc), dialogs := [SettingsSaved]\<rparr>)"
    unfolding themed_doc_def
    by (simp add: save_config_def chosen_chars_def new_config_def reading_def
          default_controls_def dict_update_def write_config_def quiet_world_def
          ndigits.simps max_str_digits_def
          show_dialog_def)
  have k: "''theme'' \<notin> set managed_keys"
    by (simp add: managed_keys_def)
  from extra_keys_preserved [OF l i r sv k] l i sv k show ?thesis
    by simp
qed

section \<open>Preview\<close>

text \<open>
  Claim C9. \<^verbatim>\<open>preview_screensaver\<close> saves without messages. When the save fails
  nothing is handed to \<^verbatim>\<open>Popen\<close> and no message is shown. When it succeeds the
  server is started and then the browser; the first \<^verbatim>\<open>Popen\<close> that raises ends the
  launch with the message of the preview, and what follows it is not started. In every
  case the function returns, with the session as the save left it and the configuration
  file as the save left it.
\<close>

theorem preview_launches_only_after_save:
  assumes "save_config False s w = (r, s1, w1)" and "preview_screensaver s w = (s', w')"
  shows "s' = s1 \<and> config_file w' = config_file w1 \<and>
         (\<not> returned r \<longrightarrow>
            w' = w1 \<and> popen_calls w' = popen_calls w \<and> processes w' = processes w \<and>
            dialogs w' = dialogs w) \<and>
         (returned r \<longrightarrow>
            (case popen_raises w server_cmd of
               Some e \<Rightarrow>
                 popen_calls w' = popen_calls w @ [server_cmd] \<and>
                 processes w' = processes w \<and>
                 dialogs w' = dialogs w @ [FailedToOpenPreview e]
             | None \<Rightarrow>
                 (case popen_raises w browser_cmd of
                    Some e \<Rightarrow>
                      popen_calls w' = popen_calls w @ [server_cmd, browser_cmd] \<and>
                      processes w' = processes w @ [server_cmd] \<and>
                      dialogs w' = dialogs w @ [FailedToOpenPreview e]
                  | None \<Rightarrow>
                      popen_calls w' = popen_calls w @ [server_cmd, browser_cmd] \<and>
                      processes w' = processes w @ [server_cmd, browser_cmd] \<and>
                      dialogs w' = dialogs w)))"
proof -
  from save_config_world [OF assms(1)]
  have frame: "popen_raises w1 = popen_raises w" "popen_calls w1 = popen_calls w"
    "processes w1 = processes w" "dialogs w1 = dialogs w"
    by simp_all
  show ?thesis
  proof (cases "returned r")
    case False
    with assms frame show ?thesis by (simp add: preview_screensaver_def)
  next
    case True
    with assms have "s' = s1" "w' = launch w1"
      by (simp_all add: preview_screensaver_def)
    with True frame show ?thesis
      by (simp add: launch_def popen_def Let_def split: option.splits)
  qed
qed

theorem preview_launches_only_after_save_witness:
  "returned (fst (save_config False (ticked_session default_controls) no_browser_world)) \<and>
   popen_calls (snd (preview_screensaver (ticked_session default_controls) no_browser_world)) =
     [server_cmd, browser_cmd] \<and>
   processes (snd (preview_screensaver (ticked_session default_controls) no_browser_world)) =
     [server_cmd] \<and>
   dialogs (snd (preview_screensaver (ticked_session default_controls) no_browser_world)) =
     [FailedToOpenPreview OSError] \<and>
   \<not> returned (fst (save_config False (unticked_session default_controls) no_browser_world)) \<and>
   popen_calls (snd (preview_screensaver (unticked_session default_controls) no_browser_world)) =
     []"
proof -
  let ?t = "ticked_session default_controls"
  let ?u = "unticked_session default_controls"
  obtain r s1 w1 where sv: "save_config False ?t no_browser_world = (r, s1, w1)"
    by (cases "save_config False ?t no_browser_world")
  obtain s' w' where pv: "preview_screensaver ?t no_browser_world = (s', w')"
    by (cases "preview_screensaver ?t no_browser_world")
  have "fst (save_config False ?t no_browser_world) = Saved"
    by (simp add: save_config_def chosen_chars_def new_config_def reading_def
          ticked_session_def default_controls_def write_config_def quiet_world_def
          ndigits.simps max_str_digits_def dict_update_def DEFAULT_CONFIG_def
          no_browser_world_def)
  with sv have r: "returned r" by simp
  have env: "popen_raises no_browser_world server_cmd = None"
    "popen_raises no_browser_world browser_cmd = Some OSError"
    "popen_calls no_browser_world = []" "processes no_browser_world = []"
    "dialogs no_browser_world = []"
    by (simp_all add: no_browser_world_def quiet_world_def server_cmd_def browser_cmd_def)
  obtain r2 s2 w2 where sv2: "save_config False ?u no_browser_world = (r2, s2, w2)"
    by (cases "save_config False ?u no_browser_world")
  obtain s3 w3 where pv2: "preview_screensaver ?u no_browser_world = (s3, w3)"
    by (cases "preview_screensaver ?u no_browser_world")
  have "fst (save_config False ?u no_browser_world) = EmptySelection"
    by (simp add: save_config_def chosen_chars_def unticked_session_def)
  with sv2 have r2: "\<not> returned r2" by simp
  from preview_launches_only_after_save [OF sv pv] r env
  have a: "popen_calls w' = [server_cmd, browser_cmd]" "processes w' = [server_cmd]"
    "dialogs w' = [FailedToOpenPreview OSError]"
    by simp_all
  from preview_launches_only_after_save [OF sv2 pv2] r2 env
  have b: "popen_calls w3 = []"
    by auto
  from a b r r2 show ?thesis
    by (simp add: sv pv sv2 pv2)
qed

end
